theory Spec2Isabelle
  imports Main
begin

section \<open>Data model\<close>

text \<open>
  The values exchanged with the hosted backend. An error object of the backend
  (\<open>AuthError\<close>, \<open>PostgrestError\<close>, or whatever a rejected promise carries) is
  reduced to the two fields the code reads: \<open>code\<close> and \<open>message\<close>.
\<close>

record remote_error =
  code :: string
  message :: string

text \<open>
  An awaited promise either resolves with a value or rejects; a rejection is what
  \<open>await\<close> throws into the enclosing \<open>try\<close>.
\<close>

datatype 'a awaited = Resolved 'a | Rejected remote_error

text \<open>\<open>user.user_metadata\<close>: the object given as \<open>options.data\<close> at sign-up.\<close>

record metadata =
  md_full_name :: "string option"
  md_role :: "string option"

record auth_user =
  au_id :: string
  user_metadata :: "metadata option"

record session =
  sess_user :: "auth_user option"

text \<open>
  A row of one of the tables, \<open>data\<close> in the source. Every column the code reads is
  there; a column that the row lacks is \<open>undefined\<close> in the source and \<open>None\<close> here.
\<close>

record row =
  d_id :: string
  d_role :: "string option"
  d_name :: "string option"
  d_full_name :: "string option"
  d_email :: "string option"
  d_roll_no :: "string option"
  d_standard :: "string option"
  d_class :: "string option"
  d_linked_student_roll :: "string option"

text \<open>\<open>UserProfile\<close> of the types module.\<close>

record user_profile =
  p_id :: string
  p_role :: string
  p_name :: "string option"
  p_email :: "string option"
  p_roll_no :: "string option"
  p_standard :: "string option"
  p_class :: "string option"
  p_linked_student_roll :: "string option"

text \<open>The four \<open>useState\<close> cells of \<open>AuthProvider\<close> in hooks/useAuth.\<close>

record auth_state =
  user :: "auth_user option"
  profile :: "user_profile option"
  loading :: bool
  error :: "string option"

text \<open>\<open>AuthContextType\<close>: the state cells and the derived flag (the three actions are
  the functions \<open>signUp\<close>, \<open>signIn\<close>, \<open>signOut\<close> below).\<close>

record auth_context = auth_state +
  isAuthenticated :: bool

definition initial_state :: auth_state where
  "initial_state = \<lparr>user = None, profile = None, loading = True, error = None\<rparr>"

text \<open>Responses of the backend, as the code destructures them.\<close>

record session_response =
  gs_session :: "session option"
  gs_error :: "remote_error option"

record query_response =
  q_data :: "row option"
  q_error :: "remote_error option"

record auth_response =
  ar_user :: "auth_user option"
  ar_error :: "remote_error option"

record insert_data =
  ins_id :: string
  ins_name :: "string option"
  ins_full_name :: string
  ins_email :: string
  ins_created_at :: string

record SignUpData =
  sd_role :: string
  sd_full_name :: string
  sd_email :: string
  sd_password :: string

text \<open>Every call that leaves the client, in the order issued.\<close>

datatype remote_call =
    GetSession
  | AuthSignUp string string string string
  | AuthSignIn string string
  | AuthSignOut
  | Select string string
  | Insert string insert_data

text \<open>
  The hosted service: what each call answers. \<open>auth_signOut\<close> and \<open>from_insert\<close>
  answer with the \<open>error\<close> field of their response, the only one the code reads.
\<close>

record remote =
  auth_getSession :: "session_response awaited"
  auth_signUp :: "string \<Rightarrow> string \<Rightarrow> string \<Rightarrow> string \<Rightarrow> auth_response awaited"
  auth_signInWithPassword :: "string \<Rightarrow> string \<Rightarrow> auth_response awaited"
  auth_signOut :: "remote_error option awaited"
  from_select :: "string \<Rightarrow> string \<Rightarrow> query_response awaited"
  from_insert :: "string \<Rightarrow> insert_data \<Rightarrow> remote_error option awaited"

section \<open>JavaScript truthiness\<close>

text \<open>A string-or-undefined value is truthy when it is a non-empty string.\<close>

definition truthy :: "string option \<Rightarrow> bool" where
  "truthy v = (case v of None \<Rightarrow> False | Some s \<Rightarrow> s \<noteq> [])"

text \<open>\<open>authUser.user_metadata?.role\<close>\<close>

definition metadata_role :: "auth_user \<Rightarrow> string option" where
  "metadata_role authUser =
     (case user_metadata authUser of None \<Rightarrow> None | Some m \<Rightarrow> md_role m)"

text \<open>\<open>session?.user\<close>\<close>

definition session_user :: "session option \<Rightarrow> auth_user option" where
  "session_user s = (case s of None \<Rightarrow> None | Some x \<Rightarrow> sess_user x)"

section \<open>hooks/useAuth: the context value and the hook\<close>

text \<open>\<open>value\<close> of \<open>AuthProvider\<close>: \<open>isAuthenticated: !!user && !!profile\<close>. Both are
  objects or null, so \<open>!!\<close> tests for non-null.\<close>

definition provider_value :: "auth_state \<Rightarrow> auth_context" where
  "provider_value s =
     \<lparr>user = user s, profile = profile s, loading = loading s, error = error s,
      isAuthenticated = (user s \<noteq> None \<and> profile s \<noteq> None)\<rparr>"

text \<open>\<open>useAuth\<close>: the context is \<open>undefined\<close> (\<open>None\<close>) outside a provider. A thrown
  \<open>Error\<close> is \<open>Inl\<close> of its message. The hook is the same in hooks/useAuth and in
  context/AuthContext, whatever the type \<open>'c\<close> of the context value.\<close>

definition useAuth :: "'c option \<Rightarrow> string + 'c" where
  "useAuth context =
     (case context of
        None \<Rightarrow> Inl ''useAuth must be used within an AuthProvider''
      | Some c \<Rightarrow> Inr c)"

section \<open>components/ProtectedRoute\<close>

datatype view = LoadingView | AuthFormView | ProfileNotFoundView | Children

definition ProtectedRoute :: "auth_context \<Rightarrow> view" where
  "ProtectedRoute c =
     (if loading c then LoadingView
      else if truthy (error c) \<and> user c = None then AuthFormView
      else if \<not> isAuthenticated c then AuthFormView
      else if error c = Some ''No profile found. Please contact admin.'' then ProfileNotFoundView
      else Children)"

text \<open>
  The priority order as the specification words it: the five named states, tried in
  order, and the view each one renders. "Error is set" is read as: the error is not null.
\<close>

datatype gate_state =
  GateLoading | GateErrorWithoutUser | GateUnauthenticated | GateProfileNotFound | GateAuthenticated

definition spec_gate_state :: "auth_context \<Rightarrow> gate_state" where
  "spec_gate_state c =
     (if loading c then GateLoading
      else if error c \<noteq> None \<and> user c = None then GateErrorWithoutUser
      else if \<not> (user c \<noteq> None \<and> profile c \<noteq> None) then GateUnauthenticated
      else if error c = Some ''No profile found. Please contact admin.'' then GateProfileNotFound
      else GateAuthenticated)"

fun spec_gate_view :: "gate_state \<Rightarrow> view" where
  "spec_gate_view GateLoading = LoadingView"
| "spec_gate_view GateErrorWithoutUser = AuthFormView"
| "spec_gate_view GateUnauthenticated = AuthFormView"
| "spec_gate_view GateProfileNotFound = ProfileNotFoundView"
| "spec_gate_view GateAuthenticated = Children"

section \<open>hooks/useAuth: fetchUserProfile\<close>

text \<open>
  What an asynchronous function did when its promise settles: the value it resolved
  with (\<open>Inr\<close>) or the error it rejected with (\<open>Inl\<close>), the state cells after its
  writes, and the remote calls it issued, in order.
\<close>

record ('a, 's) run =
  returned :: "remote_error + 'a"
  state_after :: 's
  calls :: "remote_call list"

text \<open>The \<open>switch (role)\<close> of \<open>fetchUserProfile\<close>; \<open>None\<close> is its \<open>default\<close> branch.\<close>

definition fetch_tableName :: "string \<Rightarrow> string option" where
  "fetch_tableName role =
     (if role = ''faculty'' then Some ''faculty''
      else if role = ''student'' then Some ''students''
      else if role = ''parent'' then Some ''parents''
      else None)"

text \<open>
  \<open>fetchUserProfile\<close> has one suspension point, the \<open>await\<close> of the table query.
  \<open>fetch_begin\<close> is the code up to it: either the function has returned early
  (\<open>FetchReturned\<close>, with the state it left), or the query on \<open>tableName\<close> has been
  issued and the function waits (\<open>FetchAwaiting role tableName\<close>).
\<close>

datatype fetch_step = FetchReturned auth_state | FetchAwaiting string string

definition fetch_begin :: "auth_user \<Rightarrow> auth_state \<Rightarrow> fetch_step" where
  "fetch_begin authUser s =
     (case metadata_role authUser of
        None \<Rightarrow> FetchReturned (s\<lparr>error := Some ''No role found in user profile''\<rparr>)
      | Some role \<Rightarrow>
          if role = [] then FetchReturned (s\<lparr>error := Some ''No role found in user profile''\<rparr>)
          else (case fetch_tableName role of
                  None \<Rightarrow> FetchReturned (s\<lparr>error := Some ''Invalid user role''\<rparr>)
                | Some tableName \<Rightarrow> FetchAwaiting role tableName))"

text \<open>The \<open>userProfile\<close> object built from a row; \<open>data.name || data.full_name\<close>.\<close>

definition userProfile_of :: "string \<Rightarrow> row \<Rightarrow> user_profile" where
  "userProfile_of role data =
     \<lparr>p_id = d_id data, p_role = role,
      p_name = (if truthy (d_name data) then d_name data else d_full_name data),
      p_email = d_email data, p_roll_no = d_roll_no data, p_standard = d_standard data,
      p_class = d_class data, p_linked_student_roll = d_linked_student_roll data\<rparr>"

text \<open>
  The rest of the \<open>try\<close> block once the query has settled: \<open>Inl\<close> is an error thrown
  inside the block (no state cell has been written at that point), \<open>Inr\<close> the state at
  the end of the block.
\<close>

definition fetch_try_resume :: "string \<Rightarrow> query_response awaited \<Rightarrow> auth_state \<Rightarrow> remote_error + auth_state" where
  "fetch_try_resume role res s =
     (case res of
        Rejected err \<Rightarrow> Inl err
      | Resolved q \<Rightarrow>
          (case q_error q of
             Some profileError \<Rightarrow>
               if code profileError = ''PGRST116''
               then Inr (s\<lparr>error := Some ''No profile found. Please contact admin.'', profile := None\<rparr>)
               else Inl profileError
           | None \<Rightarrow>
               (case q_data q of
                  Some data \<Rightarrow> Inr (s\<lparr>profile := Some (userProfile_of role data), error := None\<rparr>)
                | None \<Rightarrow> Inr s)))"

text \<open>The \<open>try\<close> block with its \<open>catch\<close>: \<open>setError(err.message); setProfile(null)\<close>.\<close>

definition fetch_resume :: "string \<Rightarrow> query_response awaited \<Rightarrow> auth_state \<Rightarrow> auth_state" where
  "fetch_resume role res s =
     (case fetch_try_resume role res s of
        Inl err \<Rightarrow> s\<lparr>error := Some (message err), profile := None\<rparr>
      | Inr s' \<Rightarrow> s')"

text \<open>The whole function, run against a remote that answers at once. Nothing escapes
  the \<open>catch\<close>, so the promise always resolves.\<close>

definition fetchUserProfile :: "remote \<Rightarrow> auth_user \<Rightarrow> auth_state \<Rightarrow> (unit, auth_state) run" where
  "fetchUserProfile rem authUser s =
     (case fetch_begin authUser s of
        FetchReturned s' \<Rightarrow> \<lparr>returned = Inr (), state_after = s', calls = []\<rparr>
      | FetchAwaiting role tableName \<Rightarrow>
          \<lparr>returned = Inr (),
           state_after = fetch_resume role (from_select rem tableName (au_id authUser)) s,
           calls = [Select tableName (au_id authUser)]\<rparr>)"

section \<open>hooks/useAuth: the three actions\<close>

text \<open>The \<open>switch (userData.role)\<close> of \<open>signUp\<close>: it has no \<open>default\<close>, so
  \<open>tableName\<close> keeps its initial value \<open>''\<close> on any other role.\<close>

definition signUp_tableName :: "string \<Rightarrow> string" where
  "signUp_tableName role =
     (if role = ''faculty'' then ''faculty''
      else if role = ''student'' then ''students''
      else if role = ''parent'' then ''parents''
      else [])"

definition signUp_insertData :: "string \<Rightarrow> auth_user \<Rightarrow> SignUpData \<Rightarrow> insert_data" where
  "signUp_insertData now u userData =
     \<lparr>ins_id = au_id u, ins_name = Some (sd_full_name userData),
      ins_full_name = sd_full_name userData, ins_email = sd_email userData,
      ins_created_at = now\<rparr>"

text \<open>
  The \<open>try\<close> block of \<open>signUp\<close>: its result (\<open>Inl\<close> a thrown error, \<open>Inr\<close> the returned
  \<open>data.user\<close>) and the calls made. The block writes no state cell. \<open>now\<close> is what
  \<open>new Date().toISOString()\<close> gives.
\<close>

definition signUp_try :: "remote \<Rightarrow> string \<Rightarrow> string \<Rightarrow> string \<Rightarrow> SignUpData \<Rightarrow> (remote_error + auth_user option) \<times> remote_call list" where
  "signUp_try rem now email password userData =
     (let c1 = AuthSignUp email password (sd_full_name userData) (sd_role userData) in
      case auth_signUp rem email password (sd_full_name userData) (sd_role userData) of
        Rejected err \<Rightarrow> (Inl err, [c1])
      | Resolved r \<Rightarrow>
          (case ar_error r of
             Some signUpError \<Rightarrow> (Inl signUpError, [c1])
           | None \<Rightarrow>
               (case ar_user r of
                  None \<Rightarrow> (Inr None, [c1])
                | Some u \<Rightarrow>
                    (let tableName = signUp_tableName (sd_role userData);
                         insertData = signUp_insertData now u userData;
                         c2 = Insert tableName insertData in
                     case from_insert rem tableName insertData of
                       Rejected err \<Rightarrow> (Inl err, [c1, c2])
                     | Resolved (Some insertError) \<Rightarrow> (Inl insertError, [c1, c2])
                     | Resolved None \<Rightarrow> (Inr (Some u), [c1, c2])))))"

text \<open>\<open>setLoading(true); setError(null); try ... catch {setError(err.message); throw err}
  finally {setLoading(false)}\<close>\<close>

definition signUp :: "remote \<Rightarrow> string \<Rightarrow> string \<Rightarrow> string \<Rightarrow> SignUpData \<Rightarrow> auth_state \<Rightarrow> (auth_user option, auth_state) run" where
  "signUp rem now email password userData s =
     (let s1 = s\<lparr>loading := True, error := None\<rparr> in
      case signUp_try rem now email password userData of
        (Inl err, cs) \<Rightarrow>
          \<lparr>returned = Inl err, state_after = s1\<lparr>error := Some (message err), loading := False\<rparr>, calls = cs\<rparr>
      | (Inr data, cs) \<Rightarrow>
          \<lparr>returned = Inr data, state_after = s1\<lparr>loading := False\<rparr>, calls = cs\<rparr>)"

definition signIn_try :: "remote \<Rightarrow> string \<Rightarrow> string \<Rightarrow> remote_error + auth_user option" where
  "signIn_try rem email password =
     (case auth_signInWithPassword rem email password of
        Rejected err \<Rightarrow> Inl err
      | Resolved r \<Rightarrow>
          (case ar_error r of
             Some signInError \<Rightarrow> Inl signInError
           | None \<Rightarrow> Inr (ar_user r)))"

definition signIn :: "remote \<Rightarrow> string \<Rightarrow> string \<Rightarrow> auth_state \<Rightarrow> (auth_user option, auth_state) run" where
  "signIn rem email password s =
     (let s1 = s\<lparr>loading := True, error := None\<rparr> in
      case signIn_try rem email password of
        Inl err \<Rightarrow>
          \<lparr>returned = Inl err, state_after = s1\<lparr>error := Some (message err), loading := False\<rparr>,
           calls = [AuthSignIn email password]\<rparr>
      | Inr data \<Rightarrow>
          \<lparr>returned = Inr data, state_after = s1\<lparr>loading := False\<rparr>,
           calls = [AuthSignIn email password]\<rparr>)"

text \<open>
  The \<open>try\<close> block of \<open>signOut\<close> up to its first state write: \<open>Some\<close> is the error
  thrown (by the \<open>await\<close> or by \<open>throw signOutError\<close>), \<open>None\<close> means the block goes on
  to the three writes.
\<close>

definition signOut_thrown :: "remote \<Rightarrow> remote_error option" where
  "signOut_thrown rem =
     (case auth_signOut rem of
        Rejected err \<Rightarrow> Some err
      | Resolved signOutError \<Rightarrow> signOutError)"

text \<open>\<open>setLoading(true); try {...; setUser(null); setProfile(null); setError(null)}
  catch {setError(err.message)} finally {setLoading(false)}\<close>: the \<open>catch\<close> does not
  throw again.\<close>

definition signOut :: "remote \<Rightarrow> auth_state \<Rightarrow> (unit, auth_state) run" where
  "signOut rem s =
     (let s1 = s\<lparr>loading := True\<rparr> in
      case signOut_thrown rem of
        Some err \<Rightarrow>
          \<lparr>returned = Inr (), state_after = s1\<lparr>error := Some (message err), loading := False\<rparr>,
           calls = [AuthSignOut]\<rparr>
      | None \<Rightarrow>
          \<lparr>returned = Inr (),
           state_after = s1\<lparr>user := None, profile := None, error := None, loading := False\<rparr>,
           calls = [AuthSignOut]\<rparr>)"

section \<open>hooks/useAuth: the effect of AuthProvider\<close>

text \<open>
  The effect's closure: the state cells, the local variable \<open>mounted\<close>, and whether the
  subscription to the event stream is still registered.
\<close>

record sync =
  st :: auth_state
  mounted :: bool
  subscribed :: bool

definition mount :: sync where
  "mount = \<lparr>st = initial_state, mounted = True, subscribed = True\<rparr>"

text \<open>The function the effect returns: \<open>mounted = false; subscription.unsubscribe()\<close>.\<close>

definition cleanup :: "sync \<Rightarrow> sync" where
  "cleanup y = y\<lparr>mounted := False, subscribed := False\<rparr>"

text \<open>
  A call of \<open>fetchUserProfile\<close> suspended at its query, inside \<open>initializeAuth\<close> or
  inside the event callback: the role read, the table queried and the id asked for.
  In both callers the statement after \<open>await fetchUserProfile(...)\<close> is
  \<open>setLoading(false)\<close>.
\<close>

datatype pending = PendingFetch string string string

text \<open>The \<open>catch\<close> of \<open>initializeAuth\<close>.\<close>

definition initializeAuth_catch :: "remote_error \<Rightarrow> sync \<Rightarrow> sync" where
  "initializeAuth_catch err y =
     (if mounted y then y\<lparr>st := (st y)\<lparr>error := Some (message err), loading := False\<rparr>\<rparr> else y)"

text \<open>
  \<open>initializeAuth\<close> from the moment \<open>getSession()\<close> settles, up to its end or to the
  suspension inside \<open>fetchUserProfile\<close>.
\<close>

definition initializeAuth_resume :: "session_response awaited \<Rightarrow> sync \<Rightarrow> sync \<times> pending option" where
  "initializeAuth_resume res y =
     (case res of
        Rejected err \<Rightarrow> (initializeAuth_catch err y, None)
      | Resolved r \<Rightarrow>
          (case gs_error r of
             Some sessionError \<Rightarrow> (initializeAuth_catch sessionError y, None)
           | None \<Rightarrow>
               if mounted y then
                 (case session_user (gs_session r) of
                    Some u \<Rightarrow>
                      (let s1 = (st y)\<lparr>user := Some u\<rparr> in
                       case fetch_begin u s1 of
                         FetchReturned s2 \<Rightarrow> (y\<lparr>st := s2\<lparr>loading := False\<rparr>\<rparr>, None)
                       | FetchAwaiting role tableName \<Rightarrow>
                           (y\<lparr>st := s1\<rparr>, Some (PendingFetch role tableName (au_id u))))
                  | None \<Rightarrow>
                      (y\<lparr>st := (st y)\<lparr>user := None, profile := None, loading := False\<rparr>\<rparr>, None))
               else (y, None)))"

text \<open>
  The callback given to \<open>onAuthStateChange\<close>, up to its end or to the suspension
  inside \<open>fetchUserProfile\<close>. An unsubscribed callback is not called.
\<close>

definition onAuthStateChange :: "string \<Rightarrow> session option \<Rightarrow> sync \<Rightarrow> sync \<times> pending option" where
  "onAuthStateChange event sess y =
     (if \<not> subscribed y then (y, None)
      else if \<not> mounted y then (y, None)
      else
        (case (if event = ''SIGNED_IN'' then session_user sess else None) of
           Some u \<Rightarrow>
             (let s1 = (st y)\<lparr>user := Some u, error := None\<rparr> in
              case fetch_begin u s1 of
                FetchReturned s2 \<Rightarrow> (y\<lparr>st := s2\<lparr>loading := False\<rparr>\<rparr>, None)
              | FetchAwaiting role tableName \<Rightarrow>
                  (y\<lparr>st := s1\<rparr>, Some (PendingFetch role tableName (au_id u))))
         | None \<Rightarrow>
             if event = ''SIGNED_OUT''
             then (y\<lparr>st := (st y)\<lparr>user := None, profile := None, error := None, loading := False\<rparr>\<rparr>, None)
             else (y\<lparr>st := (st y)\<lparr>loading := False\<rparr>\<rparr>, None)))"

text \<open>
  The query of a suspended \<open>fetchUserProfile\<close> settles: the function runs to its end,
  then its caller runs \<open>setLoading(false)\<close>. Neither reads \<open>mounted\<close> at this point.
\<close>

fun pending_resume :: "pending \<Rightarrow> query_response awaited \<Rightarrow> sync \<Rightarrow> sync" where
  "pending_resume (PendingFetch role tableName uid) res y =
     y\<lparr>st := (fetch_resume role res (st y))\<lparr>loading := False\<rparr>\<rparr>"

text \<open>An event handled against a remote that answers the query at once.\<close>

definition handle_event :: "remote \<Rightarrow> string \<Rightarrow> session option \<Rightarrow> sync \<Rightarrow> sync" where
  "handle_event rem event sess y =
     (case onAuthStateChange event sess y of
        (y', None) \<Rightarrow> y'
      | (y', Some (PendingFetch role tableName uid)) \<Rightarrow>
          pending_resume (PendingFetch role tableName uid) (from_select rem tableName uid) y')"

section \<open>context/AuthContext: the earlier provider\<close>

text \<open>
  The provider of context/AuthContext keeps two cells, \<open>user\<close> (a table row with its
  role) and \<open>loading\<close>; it has no \<open>profile\<close> and no \<open>error\<close> cell.
\<close>

record ctx_state =
  ctx_user :: "row option"
  ctx_loading :: bool

text \<open>\<open>const { data } = await supabase.from(t).select('*').eq('id', userId).single()\<close>
  inside a \<open>try\<close>: \<open>Inl\<close> when the await throws, else the \<open>data\<close> field.\<close>

definition ctx_select_data :: "remote \<Rightarrow> string \<Rightarrow> string \<Rightarrow> remote_error + row option" where
  "ctx_select_data rem tableName userId =
     (case from_select rem tableName userId of
        Rejected err \<Rightarrow> Inl err
      | Resolved q \<Rightarrow> Inr (q_data q))"

text \<open>
  \<open>fetchUserProfile(userId)\<close> of src/context/AuthContext.tsx: it takes no role; it tries
  \<open>faculty\<close>, then \<open>users\<close>, then \<open>parents\<close>, and stops at the first row found. Its
  \<open>catch\<close> only logs.
\<close>

definition ctx_fetchUserProfile :: "remote \<Rightarrow> string \<Rightarrow> ctx_state \<Rightarrow> (unit, ctx_state) run" where
  "ctx_fetchUserProfile rem userId s =
     (let c1 = Select ''faculty'' userId; c2 = Select ''users'' userId; c3 = Select ''parents'' userId in
      case ctx_select_data rem ''faculty'' userId of
        Inl err \<Rightarrow> \<lparr>returned = Inr (), state_after = s, calls = [c1]\<rparr>
      | Inr (Some faculty) \<Rightarrow>
          \<lparr>returned = Inr (), state_after = s\<lparr>ctx_user := Some (faculty\<lparr>d_role := Some ''faculty''\<rparr>)\<rparr>,
           calls = [c1]\<rparr>
      | Inr None \<Rightarrow>
          (case ctx_select_data rem ''users'' userId of
             Inl err \<Rightarrow> \<lparr>returned = Inr (), state_after = s, calls = [c1, c2]\<rparr>
           | Inr (Some userData) \<Rightarrow>
               \<lparr>returned = Inr (), state_after = s\<lparr>ctx_user := Some userData\<rparr>, calls = [c1, c2]\<rparr>
           | Inr None \<Rightarrow>
               (case ctx_select_data rem ''parents'' userId of
                  Inl err \<Rightarrow> \<lparr>returned = Inr (), state_after = s, calls = [c1, c2, c3]\<rparr>
                | Inr (Some parent) \<Rightarrow>
                    \<lparr>returned = Inr (),
                     state_after = s\<lparr>ctx_user := Some (parent\<lparr>d_role := Some ''parent''\<rparr>)\<rparr>,
                     calls = [c1, c2, c3]\<rparr>
                | Inr None \<Rightarrow> \<lparr>returned = Inr (), state_after = s, calls = [c1, c2, c3]\<rparr>)))"

text \<open>Its event callback: \<open>fetchUserProfile(session.user.id)\<close> on \<open>SIGNED_IN\<close>.\<close>

definition ctx_onAuthStateChange :: "remote \<Rightarrow> string \<Rightarrow> session option \<Rightarrow> ctx_state \<Rightarrow> (unit, ctx_state) run" where
  "ctx_onAuthStateChange rem event sess s =
     (case (if event = ''SIGNED_IN'' then session_user sess else None) of
        Some u \<Rightarrow> ctx_fetchUserProfile rem (au_id u) s
      | None \<Rightarrow>
          if event = ''SIGNED_OUT''
          then \<lparr>returned = Inr (), state_after = s\<lparr>ctx_user := None\<rparr>, calls = []\<rparr>
          else \<lparr>returned = Inr (), state_after = s, calls = []\<rparr>)"

text \<open>\<open>logout\<close>: \<open>try {...; if (error) throw error; setUser(null)} catch {toast}\<close>.\<close>

definition ctx_logout :: "remote \<Rightarrow> ctx_state \<Rightarrow> (unit, ctx_state) run" where
  "ctx_logout rem s =
     (case signOut_thrown rem of
        Some err \<Rightarrow> \<lparr>returned = Inr (), state_after = s, calls = [AuthSignOut]\<rparr>
      | None \<Rightarrow> \<lparr>returned = Inr (), state_after = s\<lparr>ctx_user := None\<rparr>, calls = [AuthSignOut]\<rparr>)"

text \<open>
  \<open>signup\<close> of the later revision of that provider (the one that passes role and
  name as metadata): one insert into the table of the role, none for any other role;
  the row has no \<open>name\<close> column. It writes no state cell and re-throws.
\<close>

definition ctx_signup_userData :: "string \<Rightarrow> auth_user \<Rightarrow> SignUpData \<Rightarrow> insert_data" where
  "ctx_signup_userData now u signupData =
     \<lparr>ins_id = au_id u, ins_name = None, ins_full_name = sd_full_name signupData,
      ins_email = sd_email signupData, ins_created_at = now\<rparr>"

definition ctx_signup_table :: "string \<Rightarrow> string option" where
  "ctx_signup_table role =
     (if role = ''faculty'' then Some ''faculty''
      else if role = ''student'' then Some ''students''
      else if role = ''parent'' then Some ''parents''
      else None)"

definition ctx_signup :: "remote \<Rightarrow> string \<Rightarrow> SignUpData \<Rightarrow> ctx_state \<Rightarrow> (unit, ctx_state) run" where
  "ctx_signup rem now signupData s =
     (let c1 = AuthSignUp (sd_email signupData) (sd_password signupData)
                 (sd_full_name signupData) (sd_role signupData) in
      case auth_signUp rem (sd_email signupData) (sd_password signupData)
             (sd_full_name signupData) (sd_role signupData) of
        Rejected err \<Rightarrow> \<lparr>returned = Inl err, state_after = s, calls = [c1]\<rparr>
      | Resolved r \<Rightarrow>
          (case ar_error r of
             Some err \<Rightarrow> \<lparr>returned = Inl err, state_after = s, calls = [c1]\<rparr>
           | None \<Rightarrow>
               (case ar_user r of
                  None \<Rightarrow> \<lparr>returned = Inr (), state_after = s, calls = [c1]\<rparr>
                | Some u \<Rightarrow>
                    (case ctx_signup_table (sd_role signupData) of
                       None \<Rightarrow> \<lparr>returned = Inr (), state_after = s, calls = [c1]\<rparr>
                     | Some tableName \<Rightarrow>
                         (let userData = ctx_signup_userData now u signupData;
                              c2 = Insert tableName userData in
                          case from_insert rem tableName userData of
                            Rejected err \<Rightarrow> \<lparr>returned = Inl err, state_after = s, calls = [c1, c2]\<rparr>
                          | Resolved (Some insertError) \<Rightarrow>
                              \<lparr>returned = Inl insertError, state_after = s, calls = [c1, c2]\<rparr>
                          | Resolved None \<Rightarrow>
                              \<lparr>returned = Inr (), state_after = s, calls = [c1, c2]\<rparr>)))))"

section \<open>Concrete values for the scenarios\<close>

definition asha_user :: auth_user where
  "asha_user = \<lparr>au_id = ''U1'',
     user_metadata = Some \<lparr>md_full_name = Some ''Asha'', md_role = Some ''student''\<rparr>\<rparr>"

definition asha_row :: row where
  "asha_row = \<lparr>d_id = ''U1'', d_role = None, d_name = Some ''Asha'', d_full_name = None,
     d_email = None, d_roll_no = Some ''STD-A-01'', d_standard = None, d_class = None,
     d_linked_student_roll = None\<rparr>"

definition asha_session :: session where
  "asha_session = \<lparr>sess_user = Some asha_user\<rparr>"

text \<open>A user whose metadata carries no role, and one whose role is not a known one.\<close>

definition norole_user :: auth_user where
  "norole_user = \<lparr>au_id = ''U2'', user_metadata = None\<rparr>"

definition admin_user :: auth_user where
  "admin_user = \<lparr>au_id = ''U3'',
     user_metadata = Some \<lparr>md_full_name = Some ''Ravi'', md_role = Some ''admin''\<rparr>\<rparr>"

definition ravi_user :: auth_user where
  "ravi_user = \<lparr>au_id = ''U4'',
     user_metadata = Some \<lparr>md_full_name = Some ''Ravi'', md_role = Some ''faculty''\<rparr>\<rparr>"

definition ravi_data :: SignUpData where
  "ravi_data = \<lparr>sd_role = ''faculty'', sd_full_name = ''Ravi'', sd_email = ''ravi@school.test'',
     sd_password = ''s3cret!pw''\<rparr>"

definition no_rows :: remote_error where
  "no_rows = \<lparr>code = ''PGRST116'', message = ''JSON object requested, multiple (or no) rows returned''\<rparr>"

definition network_down :: remote_error where
  "network_down = \<lparr>code = ''0'', message = ''Failed to fetch''\<rparr>"

definition duplicate_key :: remote_error where
  "duplicate_key = \<lparr>code = ''23505'', message = ''duplicate key value violates unique constraint''\<rparr>"

text \<open>
  A service whose \<open>students\<close> table holds the row of \<open>U1\<close> and nothing else, which
  creates the identity \<open>U4\<close> on sign-up but refuses every insert, and whose sign-out
  fails.
\<close>

definition school_remote :: remote where
  "school_remote =
     \<lparr>auth_getSession = Resolved \<lparr>gs_session = Some asha_session, gs_error = None\<rparr>,
      auth_signUp = (\<lambda>email password full_name role.
         Resolved \<lparr>ar_user = Some ravi_user, ar_error = None\<rparr>),
      auth_signInWithPassword = (\<lambda>email password.
         Resolved \<lparr>ar_user = None, ar_error = Some network_down\<rparr>),
      auth_signOut = Resolved (Some network_down),
      from_select = (\<lambda>tableName uid.
         if tableName = ''students'' \<and> uid = ''U1''
         then Resolved \<lparr>q_data = Some asha_row, q_error = None\<rparr>
         else Resolved \<lparr>q_data = None, q_error = Some no_rows\<rparr>),
      from_insert = (\<lambda>tableName data. Resolved (Some duplicate_key))\<rparr>"

text \<open>The state once \<open>U1\<close> is signed in and the profile is loaded.\<close>

definition asha_signed_in :: auth_state where
  "asha_signed_in =
     \<lparr>user = Some asha_user, profile = Some (userProfile_of ''student'' asha_row),
      loading = False, error = None\<rparr>"

text \<open>A parent whose row is missing from \<open>parents\<close>.\<close>

definition meena_user :: auth_user where
  "meena_user = \<lparr>au_id = ''U5'',
     user_metadata = Some \<lparr>md_full_name = Some ''Meena'', md_role = Some ''parent''\<rparr>\<rparr>"

text \<open>The same service with every table query failing in transport, and with an
  identity provider that refuses to create the identity.\<close>

definition offline_remote :: remote where
  "offline_remote =
     school_remote
       \<lparr>auth_signUp := (\<lambda>email password full_name role. Rejected network_down),
        from_select := (\<lambda>tableName uid. Rejected network_down)\<rparr>"

text \<open>A service in which the row of \<open>U1\<close> sits in the table named, and in no other.\<close>

definition one_row_remote :: "string \<Rightarrow> remote" where
  "one_row_remote holder =
     school_remote
       \<lparr>from_select := (\<lambda>tableName uid.
          if tableName = holder \<and> uid = ''U1''
          then Resolved \<lparr>q_data = Some asha_row, q_error = None\<rparr>
          else Resolved \<lparr>q_data = None, q_error = Some no_rows\<rparr>)\<rparr>"

section \<open>The role-to-table mapping of the specification\<close>

text \<open>
  The mapping as the specification fixes it: faculty to \<open>faculty\<close>, student to
  \<open>students\<close>, parent to \<open>parents\<close>; no table for anything else.
\<close>

definition spec_role_table :: "string \<Rightarrow> string option" where
  "spec_role_table role =
     (if role = ''faculty'' then Some ''faculty''
      else if role = ''student'' then Some ''students''
      else if role = ''parent'' then Some ''parents''
      else None)"

section \<open>Results\<close>

text \<open>
  C10. Outside an \<open>AuthProvider\<close> the hook throws the error with the message
  "useAuth must be used within an AuthProvider"; inside one it returns the value the
  provider supplied.
\<close>

theorem useAuth_outside_throws_inside_returns:
  "useAuth None = Inl ''useAuth must be used within an AuthProvider''
   \<and> useAuth (Some (provider_value s)) = Inr (provider_value s)
   \<and> useAuth (Some c) = Inr c"
  by (simp add: useAuth_def)

text \<open>
  C9. In every value the provider exposes, \<open>isAuthenticated\<close> is true exactly when
  \<open>user\<close> and \<open>profile\<close> are both non-null.
\<close>

theorem isAuthenticated_iff_user_and_profile:
  "isAuthenticated (provider_value s) = (user s \<noteq> None \<and> profile s \<noteq> None)
   \<and> user (provider_value s) = user s \<and> profile (provider_value s) = profile s"
  by (simp add: provider_value_def)

text \<open>
  C8. On every snapshot the provider exposes, the route gate renders the view of the
  first state that applies in the order loading, error without user, unauthenticated,
  profile not found, authenticated. The gate is a function of the snapshot alone.
\<close>

theorem ProtectedRoute_priority_order:
  "ProtectedRoute (provider_value s) = spec_gate_view (spec_gate_state (provider_value s))"
  by (auto simp add: ProtectedRoute_def spec_gate_state_def provider_value_def truthy_def
           split: option.splits)

subsection \<open>Facts about fetchUserProfile\<close>

lemma fetch_begin_known_role:
  assumes "metadata_role authUser = Some role" and "fetch_tableName role = Some tableName"
  shows "fetch_begin authUser s = FetchAwaiting role tableName"
proof -
  from assms(2) have "role \<noteq> []"
    by (auto simp add: fetch_tableName_def split: if_splits)
  with assms show ?thesis by (simp add: fetch_begin_def)
qed

lemma fetchUserProfile_known_role:
  assumes "metadata_role authUser = Some role" and "fetch_tableName role = Some tableName"
  shows "fetchUserProfile rem authUser s =
           \<lparr>returned = Inr (),
            state_after = fetch_resume role (from_select rem tableName (au_id authUser)) s,
            calls = [Select tableName (au_id authUser)]\<rparr>"
  by (simp add: fetchUserProfile_def fetch_begin_known_role [OF assms])

lemma fetch_tableName_is_spec: "fetch_tableName role = spec_role_table role"
  by (simp add: fetch_tableName_def spec_role_table_def)

lemma fetchUserProfile_never_throws: "returned (fetchUserProfile rem authUser s) = Inr ()"
  by (simp add: fetchUserProfile_def split: fetch_step.splits)

text \<open>Without a known role: an error is set, nothing is queried, and the profile cell
  is not written.\<close>

lemma fetchUserProfile_unknown_role:
  assumes "\<And>role. metadata_role authUser = Some role \<Longrightarrow> spec_role_table role = None"
  shows "calls (fetchUserProfile rem authUser s) = []
         \<and> error (state_after (fetchUserProfile rem authUser s)) \<in>
              {Some ''No role found in user profile'', Some ''Invalid user role''}
         \<and> profile (state_after (fetchUserProfile rem authUser s)) = profile s"
proof (cases "metadata_role authUser")
  case None
  then show ?thesis by (simp add: fetchUserProfile_def fetch_begin_def)
next
  case (Some role)
  with assms have "fetch_tableName role = None" by (simp add: fetch_tableName_is_spec)
  with Some show ?thesis by (simp add: fetchUserProfile_def fetch_begin_def)
qed

text \<open>Once the query is issued: a row replaces the profile, any failure clears it.\<close>

lemma fetch_resume_row:
  "fetch_resume role (Resolved \<lparr>q_data = Some data, q_error = None\<rparr>) s
     = s\<lparr>profile := Some (userProfile_of role data), error := None\<rparr>"
  by (simp add: fetch_resume_def fetch_try_resume_def)

lemma fetch_resume_failure_clears_profile:
  assumes "res = Rejected err \<or> (\<exists>q. res = Resolved q \<and> q_error q = Some err)"
  shows "profile (fetch_resume role res s) = None \<and> error (fetch_resume role res s) \<noteq> None"
  using assms by (auto simp add: fetch_resume_def fetch_try_resume_def)

lemma ctx_fetchUserProfile_calls:
  "calls (ctx_fetchUserProfile rem userId s) \<in>
     {[Select ''faculty'' userId],
      [Select ''faculty'' userId, Select ''users'' userId],
      [Select ''faculty'' userId, Select ''users'' userId, Select ''parents'' userId]}"
  by (simp add: ctx_fetchUserProfile_def Let_def split: sum.splits option.splits)

text \<open>The probe of context/AuthContext, answer by answer: a rejected query or a row
  found ends it; a query that resolves without a row moves it to the next table.\<close>

lemma ctx_fetchUserProfile_calls_exact:
  "calls (ctx_fetchUserProfile rem userId cs) =
     Select ''faculty'' userId #
       (case from_select rem ''faculty'' userId of
          Rejected e \<Rightarrow> []
        | Resolved q1 \<Rightarrow>
            (case q_data q1 of
               Some r \<Rightarrow> []
             | None \<Rightarrow>
                 Select ''users'' userId #
                   (case from_select rem ''users'' userId of
                      Rejected e \<Rightarrow> []
                    | Resolved q2 \<Rightarrow>
                        (case q_data q2 of
                           Some r \<Rightarrow> []
                         | None \<Rightarrow> [Select ''parents'' userId]))))"
  by (simp add: ctx_fetchUserProfile_def ctx_select_data_def Let_def
        split: awaited.splits option.splits)

lemma ctx_fetchUserProfile_row_in_faculty:
  assumes "from_select rem ''faculty'' userId = Resolved q1" and "q_data q1 = Some f"
  shows "ctx_fetchUserProfile rem userId cs =
           \<lparr>returned = Inr (), state_after = cs\<lparr>ctx_user := Some (f\<lparr>d_role := Some ''faculty''\<rparr>)\<rparr>,
            calls = [Select ''faculty'' userId]\<rparr>"
  using assms by (simp add: ctx_fetchUserProfile_def ctx_select_data_def Let_def)

lemma ctx_fetchUserProfile_row_in_users:
  assumes "from_select rem ''faculty'' userId = Resolved q1" and "q_data q1 = None"
    and "from_select rem ''users'' userId = Resolved q2" and "q_data q2 = Some r"
  shows "ctx_fetchUserProfile rem userId cs =
           \<lparr>returned = Inr (), state_after = cs\<lparr>ctx_user := Some r\<rparr>,
            calls = [Select ''faculty'' userId, Select ''users'' userId]\<rparr>"
  using assms by (simp add: ctx_fetchUserProfile_def ctx_select_data_def Let_def)

lemma ctx_fetchUserProfile_row_in_parents:
  assumes "from_select rem ''faculty'' userId = Resolved q1" and "q_data q1 = None"
    and "from_select rem ''users'' userId = Resolved q2" and "q_data q2 = None"
    and "from_select rem ''parents'' userId = Resolved q3" and "q_data q3 = Some p"
  shows "ctx_fetchUserProfile rem userId cs =
           \<lparr>returned = Inr (), state_after = cs\<lparr>ctx_user := Some (p\<lparr>d_role := Some ''parent''\<rparr>)\<rparr>,
            calls = [Select ''faculty'' userId, Select ''users'' userId, Select ''parents'' userId]\<rparr>"
  using assms by (simp add: ctx_fetchUserProfile_def ctx_select_data_def Let_def)

text \<open>Every way \<open>fetchUserProfile\<close> of hooks/useAuth fails, and the error it stores.\<close>

lemma fetchUserProfile_no_role_error:
  assumes "metadata_role authUser = None \<or> metadata_role authUser = Some []"
  shows "error (state_after (fetchUserProfile rem authUser s)) = Some ''No role found in user profile''"
  using assms by (auto simp add: fetchUserProfile_def fetch_begin_def)

lemma fetchUserProfile_invalid_role_error:
  assumes "metadata_role authUser = Some role" and "role \<noteq> []" and "spec_role_table role = None"
  shows "error (state_after (fetchUserProfile rem authUser s)) = Some ''Invalid user role''"
  using assms by (simp add: fetchUserProfile_def fetch_begin_def fetch_tableName_is_spec)

lemma fetchUserProfile_query_failure_error:
  assumes "metadata_role authUser = Some role" and "spec_role_table role = Some tableName"
  shows "(from_select rem tableName (au_id authUser) = Resolved q \<and> q_error q = Some e
            \<and> code e = ''PGRST116'' \<longrightarrow>
          error (state_after (fetchUserProfile rem authUser s))
            = Some ''No profile found. Please contact admin.'')
       \<and> ((from_select rem tableName (au_id authUser) = Resolved q \<and> q_error q = Some e
             \<and> code e \<noteq> ''PGRST116'')
            \<or> from_select rem tableName (au_id authUser) = Rejected e \<longrightarrow>
          error (state_after (fetchUserProfile rem authUser s)) = Some (message e))"
proof -
  from assms(2) have t: "fetch_tableName role = Some tableName"
    by (simp add: fetch_tableName_is_spec)
  note run = fetchUserProfile_known_role [OF assms(1) t, of rem s]
  show ?thesis
    by (auto simp add: run fetch_resume_def fetch_try_resume_def)
qed

text \<open>The resumption of a suspended fetch does not depend on \<open>mounted\<close>.\<close>

lemma pending_resume_ignores_mounted:
  "st (pending_resume p res (cleanup y)) = st (pending_resume p res y)"
  by (cases p) (simp add: cleanup_def)

subsection \<open>Facts about the actions\<close>

lemma signUp_auth_failure:
  assumes "auth_signUp rem email password (sd_full_name userData) (sd_role userData) = Rejected err
           \<or> auth_signUp rem email password (sd_full_name userData) (sd_role userData)
               = Resolved \<lparr>ar_user = v, ar_error = Some err\<rparr>"
  shows "signUp rem now email password userData s =
           \<lparr>returned = Inl err,
            state_after = s\<lparr>error := Some (message err), loading := False\<rparr>,
            calls = [AuthSignUp email password (sd_full_name userData) (sd_role userData)]\<rparr>"
  using assms by (auto simp add: signUp_def signUp_try_def Let_def)

lemma signUp_insert_failure:
  assumes "auth_signUp rem email password (sd_full_name userData) (sd_role userData)
             = Resolved \<lparr>ar_user = Some u, ar_error = None\<rparr>"
    and "from_insert rem (signUp_tableName (sd_role userData)) (signUp_insertData now u userData)
             = Resolved (Some insertError)
         \<or> from_insert rem (signUp_tableName (sd_role userData)) (signUp_insertData now u userData)
             = Rejected insertError"
  shows "signUp rem now email password userData s =
           \<lparr>returned = Inl insertError,
            state_after = s\<lparr>error := Some (message insertError), loading := False\<rparr>,
            calls = [AuthSignUp email password (sd_full_name userData) (sd_role userData),
                     Insert (signUp_tableName (sd_role userData)) (signUp_insertData now u userData)]\<rparr>"
  using assms by (auto simp add: signUp_def signUp_try_def Let_def)

lemma signUp_tableName_is_spec:
  "spec_role_table role = Some tableName \<Longrightarrow> signUp_tableName role = tableName"
  by (auto simp add: spec_role_table_def signUp_tableName_def split: if_splits)

lemma ctx_signup_insert_failure:
  assumes "auth_signUp rem (sd_email d) (sd_password d) (sd_full_name d) (sd_role d)
             = Resolved \<lparr>ar_user = Some u, ar_error = None\<rparr>"
    and "ctx_signup_table (sd_role d) = Some tableName"
    and "from_insert rem tableName (ctx_signup_userData now u d) = Resolved (Some insertError)
         \<or> from_insert rem tableName (ctx_signup_userData now u d) = Rejected insertError"
  shows "ctx_signup rem now d cs =
           \<lparr>returned = Inl insertError, state_after = cs,
            calls = [AuthSignUp (sd_email d) (sd_password d) (sd_full_name d) (sd_role d),
                     Insert tableName (ctx_signup_userData now u d)]\<rparr>"
  using assms by (auto simp add: ctx_signup_def Let_def)

lemma ctx_signup_table_is_spec: "ctx_signup_table role = spec_role_table role"
  by (simp add: ctx_signup_table_def spec_role_table_def)

lemma signIn_failure:
  assumes "auth_signInWithPassword rem email password = Rejected err
           \<or> auth_signInWithPassword rem email password = Resolved \<lparr>ar_user = v, ar_error = Some err\<rparr>"
  shows "signIn rem email password s =
           \<lparr>returned = Inl err,
            state_after = s\<lparr>error := Some (message err), loading := False\<rparr>,
            calls = [AuthSignIn email password]\<rparr>"
  using assms by (auto simp add: signIn_def signIn_try_def Let_def)

lemma signOut_never_throws: "returned (signOut rem s) = Inr ()"
  by (simp add: signOut_def Let_def split: option.splits)

lemma signOut_failure_state:
  assumes "auth_signOut rem = Resolved (Some err) \<or> auth_signOut rem = Rejected err"
  shows "state_after (signOut rem s) = s\<lparr>error := Some (message err), loading := False\<rparr>"
  using assms by (auto simp add: signOut_def signOut_thrown_def)

lemma signOut_success_state:
  assumes "auth_signOut rem = Resolved None"
  shows "state_after (signOut rem s)
           = s\<lparr>user := None, profile := None, error := None, loading := False\<rparr>"
  using assms by (simp add: signOut_def signOut_thrown_def)

lemma ctx_logout_state:
  "state_after (ctx_logout rem cs)
     = (if auth_signOut rem = Resolved None then cs\<lparr>ctx_user := None\<rparr> else cs)"
  by (simp add: ctx_logout_def signOut_thrown_def split: awaited.splits option.splits)

subsection \<open>Which tables the profile fetch queries\<close>

text \<open>
  C1, as stated, fails on the provider of src/context/AuthContext.tsx. For the session
  of \<open>U1\<close>, whose role claim is student, its event callback queries three tables,
  \<open>faculty\<close>, \<open>users\<close> and \<open>parents\<close>, and never \<open>students\<close>, where the row is.
\<close>

theorem ctx_fetch_student_session_queries_three_tables:
  "metadata_role asha_user = Some ''student''
   \<and> calls (ctx_onAuthStateChange school_remote ''SIGNED_IN'' (Some asha_session)
        \<lparr>ctx_user = None, ctx_loading = True\<rparr>)
      = [Select ''faculty'' ''U1'', Select ''users'' ''U1'', Select ''parents'' ''U1'']
   \<and> Select ''students'' ''U1'' \<notin> set (calls (ctx_onAuthStateChange school_remote ''SIGNED_IN''
        (Some asha_session) \<lparr>ctx_user = None, ctx_loading = True\<rparr>))"
  by (simp add: ctx_onAuthStateChange_def ctx_fetchUserProfile_def ctx_select_data_def
        school_remote_def asha_session_def asha_user_def session_user_def metadata_role_def)

text \<open>
  C1, amended. In hooks/useAuth, for every user whose role claim is faculty, student or
  parent, \<open>fetchUserProfile\<close> issues exactly one call, the query by the user's id on the
  table the mapping fixes for that role. The fetch of src/context/AuthContext.tsx does
  not read the role claim: it queries \<open>faculty\<close>, then \<open>users\<close>, then \<open>parents\<close>
  by the user's id, and stops at the first table that returns a row (or at a query
  that is rejected); the row found is what it stores as the user.
\<close>

theorem fetchUserProfile_queries_role_table_only:
  assumes "metadata_role authUser = Some role"
    and "spec_role_table role = Some tableName"
  shows "calls (fetchUserProfile rem authUser s) = [Select tableName (au_id authUser)]
       \<and> calls (ctx_fetchUserProfile rem (au_id authUser) cs) =
           Select ''faculty'' (au_id authUser) #
             (case from_select rem ''faculty'' (au_id authUser) of
                Rejected e \<Rightarrow> []
              | Resolved a1 \<Rightarrow>
                  (case q_data a1 of
                     Some r \<Rightarrow> []
                   | None \<Rightarrow>
                       Select ''users'' (au_id authUser) #
                         (case from_select rem ''users'' (au_id authUser) of
                            Rejected e \<Rightarrow> []
                          | Resolved a2 \<Rightarrow>
                              (case q_data a2 of
                                 Some r \<Rightarrow> []
                               | None \<Rightarrow> [Select ''parents'' (au_id authUser)]))))
       \<and> (from_select rem ''faculty'' (au_id authUser) = Resolved q1 \<and> q_data q1 = Some f
          \<longrightarrow> ctx_fetchUserProfile rem (au_id authUser) cs =
                \<lparr>returned = Inr (),
                 state_after = cs\<lparr>ctx_user := Some (f\<lparr>d_role := Some ''faculty''\<rparr>)\<rparr>,
                 calls = [Select ''faculty'' (au_id authUser)]\<rparr>)
       \<and> (from_select rem ''faculty'' (au_id authUser) = Resolved q1 \<and> q_data q1 = None
          \<and> from_select rem ''users'' (au_id authUser) = Resolved q2 \<and> q_data q2 = Some r2
          \<longrightarrow> ctx_fetchUserProfile rem (au_id authUser) cs =
                \<lparr>returned = Inr (), state_after = cs\<lparr>ctx_user := Some r2\<rparr>,
                 calls = [Select ''faculty'' (au_id authUser), Select ''users'' (au_id authUser)]\<rparr>)
       \<and> (from_select rem ''faculty'' (au_id authUser) = Resolved q1 \<and> q_data q1 = None
          \<and> from_select rem ''users'' (au_id authUser) = Resolved q2 \<and> q_data q2 = None
          \<and> from_select rem ''parents'' (au_id authUser) = Resolved q3 \<and> q_data q3 = Some p
          \<longrightarrow> ctx_fetchUserProfile rem (au_id authUser) cs =
                \<lparr>returned = Inr (),
                 state_after = cs\<lparr>ctx_user := Some (p\<lparr>d_role := Some ''parent''\<rparr>)\<rparr>,
                 calls = [Select ''faculty'' (au_id authUser), Select ''users'' (au_id authUser),
                          Select ''parents'' (au_id authUser)]\<rparr>)"
proof (intro conjI impI)
  from assms(2) have "fetch_tableName role = Some tableName"
    by (simp add: fetch_tableName_is_spec)
  from fetchUserProfile_known_role [OF assms(1) this]
  show "calls (fetchUserProfile rem authUser s) = [Select tableName (au_id authUser)]"
    by simp
next
  show "calls (ctx_fetchUserProfile rem (au_id authUser) cs) =
           Select ''faculty'' (au_id authUser) #
             (case from_select rem ''faculty'' (au_id authUser) of
                Rejected e \<Rightarrow> []
              | Resolved a1 \<Rightarrow>
                  (case q_data a1 of
                     Some r \<Rightarrow> []
                   | None \<Rightarrow>
                       Select ''users'' (au_id authUser) #
                         (case from_select rem ''users'' (au_id authUser) of
                            Rejected e \<Rightarrow> []
                          | Resolved a2 \<Rightarrow>
                              (case q_data a2 of
                                 Some r \<Rightarrow> []
                               | None \<Rightarrow> [Select ''parents'' (au_id authUser)]))))"
    by (rule ctx_fetchUserProfile_calls_exact)
next
  assume "from_select rem ''faculty'' (au_id authUser) = Resolved q1 \<and> q_data q1 = Some f"
  then show "ctx_fetchUserProfile rem (au_id authUser) cs =
                \<lparr>returned = Inr (),
                 state_after = cs\<lparr>ctx_user := Some (f\<lparr>d_role := Some ''faculty''\<rparr>)\<rparr>,
                 calls = [Select ''faculty'' (au_id authUser)]\<rparr>"
    by (simp add: ctx_fetchUserProfile_row_in_faculty)
next
  assume "from_select rem ''faculty'' (au_id authUser) = Resolved q1 \<and> q_data q1 = None
          \<and> from_select rem ''users'' (au_id authUser) = Resolved q2 \<and> q_data q2 = Some r2"
  then show "ctx_fetchUserProfile rem (au_id authUser) cs =
                \<lparr>returned = Inr (), state_after = cs\<lparr>ctx_user := Some r2\<rparr>,
                 calls = [Select ''faculty'' (au_id authUser), Select ''users'' (au_id authUser)]\<rparr>"
    by (simp add: ctx_fetchUserProfile_row_in_users)
next
  assume "from_select rem ''faculty'' (au_id authUser) = Resolved q1 \<and> q_data q1 = None
          \<and> from_select rem ''users'' (au_id authUser) = Resolved q2 \<and> q_data q2 = None
          \<and> from_select rem ''parents'' (au_id authUser) = Resolved q3 \<and> q_data q3 = Some p"
  then show "ctx_fetchUserProfile rem (au_id authUser) cs =
                \<lparr>returned = Inr (),
                 state_after = cs\<lparr>ctx_user := Some (p\<lparr>d_role := Some ''parent''\<rparr>)\<rparr>,
                 calls = [Select ''faculty'' (au_id authUser), Select ''users'' (au_id authUser),
                          Select ''parents'' (au_id authUser)]\<rparr>"
    by (simp add: ctx_fetchUserProfile_row_in_parents)
qed

text \<open>
  C1, amended, at the session of \<open>U1\<close> (student) and at the parent \<open>U5\<close>; and, for the
  probe of context/AuthContext, with the row of \<open>U1\<close> in \<open>faculty\<close>, in \<open>users\<close>, in
  \<open>parents\<close> and in \<open>students\<close>.
\<close>

theorem fetchUserProfile_queries_role_table_only_witness:
  "metadata_role asha_user = Some ''student''
   \<and> spec_role_table ''student'' = Some ''students''
   \<and> calls (fetchUserProfile school_remote asha_user initial_state) = [Select ''students'' ''U1'']
   \<and> metadata_role meena_user = Some ''parent''
   \<and> spec_role_table ''parent'' = Some ''parents''
   \<and> calls (fetchUserProfile school_remote meena_user initial_state) = [Select ''parents'' ''U5'']
   \<and> ctx_fetchUserProfile (one_row_remote ''faculty'') ''U1'' \<lparr>ctx_user = None, ctx_loading = True\<rparr>
       = \<lparr>returned = Inr (),
          state_after = \<lparr>ctx_user = Some (asha_row\<lparr>d_role := Some ''faculty''\<rparr>), ctx_loading = True\<rparr>,
          calls = [Select ''faculty'' ''U1'']\<rparr>
   \<and> ctx_fetchUserProfile (one_row_remote ''users'') ''U1'' \<lparr>ctx_user = None, ctx_loading = True\<rparr>
       = \<lparr>returned = Inr (),
          state_after = \<lparr>ctx_user = Some asha_row, ctx_loading = True\<rparr>,
          calls = [Select ''faculty'' ''U1'', Select ''users'' ''U1'']\<rparr>
   \<and> ctx_fetchUserProfile (one_row_remote ''parents'') ''U1'' \<lparr>ctx_user = None, ctx_loading = True\<rparr>
       = \<lparr>returned = Inr (),
          state_after = \<lparr>ctx_user = Some (asha_row\<lparr>d_role := Some ''parent''\<rparr>), ctx_loading = True\<rparr>,
          calls = [Select ''faculty'' ''U1'', Select ''users'' ''U1'', Select ''parents'' ''U1'']\<rparr>
   \<and> calls (ctx_fetchUserProfile (one_row_remote ''students'') ''U1''
        \<lparr>ctx_user = None, ctx_loading = True\<rparr>)
       = [Select ''faculty'' ''U1'', Select ''users'' ''U1'', Select ''parents'' ''U1'']"
proof -
  let ?cs = "\<lparr>ctx_user = None, ctx_loading = True\<rparr>"
  let ?hit = "\<lparr>q_data = Some asha_row, q_error = None\<rparr>"
  let ?miss = "\<lparr>q_data = None, q_error = Some no_rows\<rparr>"
  have a: "metadata_role asha_user = Some ''student''"
    by (simp add: metadata_role_def asha_user_def)
  have b: "spec_role_table ''student'' = Some ''students''"
    by (simp add: spec_role_table_def)
  have c: "metadata_role meena_user = Some ''parent''"
    by (simp add: metadata_role_def meena_user_def)
  have d: "spec_role_table ''parent'' = Some ''parents''"
    by (simp add: spec_role_table_def)
  have i: "au_id asha_user = ''U1''"
    by (simp add: asha_user_def)
  have sel: "\<And>h t. from_select (one_row_remote h) t ''U1'' = (if t = h then Resolved ?hit else Resolved ?miss)"
    by (simp add: one_row_remote_def)
  have "calls (fetchUserProfile school_remote asha_user initial_state) = [Select ''students'' ''U1'']"
    using fetchUserProfile_queries_role_table_only [OF a b, of school_remote initial_state]
    by (simp add: i)
  moreover
  have "calls (fetchUserProfile school_remote meena_user initial_state) = [Select ''parents'' ''U5'']"
    using fetchUserProfile_queries_role_table_only [OF c d, of school_remote initial_state]
    by (simp add: meena_user_def)
  moreover
  have "ctx_fetchUserProfile (one_row_remote ''faculty'') ''U1'' ?cs
       = \<lparr>returned = Inr (),
          state_after = \<lparr>ctx_user = Some (asha_row\<lparr>d_role := Some ''faculty''\<rparr>), ctx_loading = True\<rparr>,
          calls = [Select ''faculty'' ''U1'']\<rparr>"
    using fetchUserProfile_queries_role_table_only
            [OF a b, of "one_row_remote ''faculty''" initial_state ?cs ?hit asha_row]
    by (simp add: i sel)
  moreover
  have "ctx_fetchUserProfile (one_row_remote ''users'') ''U1'' ?cs
       = \<lparr>returned = Inr (),
          state_after = \<lparr>ctx_user = Some asha_row, ctx_loading = True\<rparr>,
          calls = [Select ''faculty'' ''U1'', Select ''users'' ''U1'']\<rparr>"
    using fetchUserProfile_queries_role_table_only
            [OF a b, of "one_row_remote ''users''" initial_state ?cs ?miss asha_row ?hit asha_row]
    by (simp add: i sel)
  moreover
  have "ctx_fetchUserProfile (one_row_remote ''parents'') ''U1'' ?cs
       = \<lparr>returned = Inr (),
          state_after = \<lparr>ctx_user = Some (asha_row\<lparr>d_role := Some ''parent''\<rparr>), ctx_loading = True\<rparr>,
          calls = [Select ''faculty'' ''U1'', Select ''users'' ''U1'', Select ''parents'' ''U1'']\<rparr>"
    using fetchUserProfile_queries_role_table_only
            [OF a b, of "one_row_remote ''parents''" initial_state ?cs ?miss asha_row ?miss asha_row
               ?hit asha_row]
    by (simp add: i sel)
  moreover
  have "calls (ctx_fetchUserProfile (one_row_remote ''students'') ''U1'' ?cs)
       = [Select ''faculty'' ''U1'', Select ''users'' ''U1'', Select ''parents'' ''U1'']"
    using fetchUserProfile_queries_role_table_only
            [OF a b, of "one_row_remote ''students''" initial_state ?cs]
    by (simp add: i sel)
  ultimately show ?thesis using a b c d by simp
qed

subsection \<open>Teardown while a fetch is in flight\<close>

text \<open>
  C2 does not hold of the code. The effect is mounted, \<open>getSession\<close> resolves with the
  session of \<open>U1\<close>, and \<open>initializeAuth\<close> suspends in the query on \<open>students\<close>. The
  cleanup then runs: \<open>mounted\<close> is false and the subscription is gone. When the query
  resolves with the row afterwards, \<open>fetchUserProfile\<close> writes the profile and the
  caller writes \<open>loading\<close>: the state differs from the state at teardown.
\<close>

theorem teardown_during_fetch_state_still_written:
  "(case initializeAuth_resume (auth_getSession school_remote) mount of
      (y1, Some p) \<Rightarrow>
        (let y2 = cleanup y1;
             y3 = pending_resume p (from_select school_remote ''students'' ''U1'') y2
         in p = PendingFetch ''student'' ''students'' ''U1''
            \<and> \<not> mounted y2 \<and> \<not> subscribed y2
            \<and> profile (st y2) = None \<and> loading (st y2)
            \<and> profile (st y3) = Some (userProfile_of ''student'' asha_row)
            \<and> \<not> loading (st y3)
            \<and> st y3 \<noteq> st y2)
    | (y1, None) \<Rightarrow> False)"
  by (simp add: initializeAuth_resume_def school_remote_def mount_def initial_state_def
        session_user_def asha_session_def asha_user_def fetch_begin_def metadata_role_def
        fetch_tableName_def cleanup_def fetch_resume_def fetch_try_resume_def)

subsection \<open>Sign-out\<close>

text \<open>
  C3, as stated, fails: the remote sign-out of \<open>school_remote\<close> fails, and after
  \<open>signOut\<close> the user and the profile of \<open>U1\<close> are still in the state.
\<close>

theorem signOut_remote_failure_keeps_user_and_profile:
  "auth_signOut school_remote = Resolved (Some network_down)
   \<and> user (state_after (signOut school_remote asha_signed_in)) = Some asha_user
   \<and> profile (state_after (signOut school_remote asha_signed_in))
       = Some (userProfile_of ''student'' asha_row)
   \<and> ctx_user (state_after (ctx_logout school_remote \<lparr>ctx_user = Some asha_row, ctx_loading = False\<rparr>))
       = Some asha_row"
  by (simp add: signOut_def ctx_logout_def signOut_thrown_def school_remote_def asha_signed_in_def)

text \<open>
  C3, amended. When the remote sign-out succeeds, \<open>signOut\<close> leaves \<open>user\<close>,
  \<open>profile\<close> and \<open>error\<close> null. When it fails (an error in the response, or a rejected
  call), \<open>user\<close> and \<open>profile\<close> are left as they were and \<open>error\<close> holds the
  failure's message. \<open>loading\<close> is false afterwards in both cases. \<open>logout\<close> of
  src/context/AuthContext.tsx likewise clears its user on success only.
\<close>

theorem signOut_clears_on_remote_success_only:
  "(auth_signOut rem = Resolved None \<longrightarrow>
      state_after (signOut rem s)
        = s\<lparr>user := None, profile := None, error := None, loading := False\<rparr>
      \<and> state_after (ctx_logout rem cs) = cs\<lparr>ctx_user := None\<rparr>)
   \<and> (auth_signOut rem = Resolved (Some err) \<or> auth_signOut rem = Rejected err \<longrightarrow>
      state_after (signOut rem s) = s\<lparr>error := Some (message err), loading := False\<rparr>
      \<and> state_after (ctx_logout rem cs) = cs)"
proof (intro conjI impI)
  assume "auth_signOut rem = Resolved None"
  then show "state_after (signOut rem s)
        = s\<lparr>user := None, profile := None, error := None, loading := False\<rparr>"
    by (rule signOut_success_state)
next
  assume "auth_signOut rem = Resolved None"
  then show "state_after (ctx_logout rem cs) = cs\<lparr>ctx_user := None\<rparr>"
    by (simp add: ctx_logout_state)
next
  assume "auth_signOut rem = Resolved (Some err) \<or> auth_signOut rem = Rejected err"
  then show "state_after (signOut rem s) = s\<lparr>error := Some (message err), loading := False\<rparr>"
    by (rule signOut_failure_state)
next
  assume "auth_signOut rem = Resolved (Some err) \<or> auth_signOut rem = Rejected err"
  then show "state_after (ctx_logout rem cs) = cs"
    by (auto simp add: ctx_logout_state)
qed

text \<open>C3, amended, at a failing and at a succeeding remote sign-out.\<close>

theorem signOut_clears_on_remote_success_only_witness:
  "auth_signOut school_remote = Resolved (Some network_down)
   \<and> state_after (signOut school_remote asha_signed_in)
       = asha_signed_in\<lparr>error := Some ''Failed to fetch'', loading := False\<rparr>
   \<and> auth_signOut (school_remote\<lparr>auth_signOut := Resolved None\<rparr>) = Resolved None
   \<and> state_after (signOut (school_remote\<lparr>auth_signOut := Resolved None\<rparr>) asha_signed_in)
       = asha_signed_in\<lparr>user := None, profile := None, error := None, loading := False\<rparr>"
proof -
  have a: "auth_signOut school_remote = Resolved (Some network_down)"
    by (simp add: school_remote_def)
  have b: "auth_signOut (school_remote\<lparr>auth_signOut := Resolved None\<rparr>) = Resolved None"
    by simp
  from a signOut_clears_on_remote_success_only [of school_remote asha_signed_in "\<lparr>ctx_user = None, ctx_loading = False\<rparr>" network_down]
  have "state_after (signOut school_remote asha_signed_in)
       = asha_signed_in\<lparr>error := Some ''Failed to fetch'', loading := False\<rparr>"
    by (simp add: network_down_def)
  moreover
  from b signOut_clears_on_remote_success_only
           [of "school_remote\<lparr>auth_signOut := Resolved None\<rparr>" asha_signed_in]
  have "state_after (signOut (school_remote\<lparr>auth_signOut := Resolved None\<rparr>) asha_signed_in)
       = asha_signed_in\<lparr>user := None, profile := None, error := None, loading := False\<rparr>"
    by simp
  ultimately show ?thesis using a b by simp
qed

subsection \<open>Profile resolution without a known role\<close>

text \<open>
  C4 does not hold of the code where it says the profile is null after a fetch that
  finds no known role. \<open>U1\<close> signs in and the profile loads; then a \<open>SIGNED_IN\<close>
  event arrives for \<open>U2\<close>, whose metadata has no role. The error is set and nothing is
  queried, but the profile cell still holds the profile of \<open>U1\<close>, and the snapshot is
  authenticated. The same happens with a role that is not a known one.
\<close>

theorem fetch_without_role_keeps_previous_profile:
  "(let y1 = handle_event school_remote ''SIGNED_IN'' (Some asha_session) mount;
        y2 = handle_event school_remote ''SIGNED_IN'' (Some \<lparr>sess_user = Some norole_user\<rparr>) y1
    in profile (st y1) = Some (userProfile_of ''student'' asha_row)
       \<and> user (st y2) = Some norole_user
       \<and> error (st y2) = Some ''No role found in user profile''
       \<and> profile (st y2) = Some (userProfile_of ''student'' asha_row)
       \<and> isAuthenticated (provider_value (st y2)))
   \<and> fetchUserProfile school_remote admin_user asha_signed_in
       = \<lparr>returned = Inr (), state_after = asha_signed_in\<lparr>error := Some ''Invalid user role''\<rparr>,
          calls = []\<rparr>"
  by (simp add: handle_event_def onAuthStateChange_def school_remote_def mount_def
        initial_state_def session_user_def asha_session_def asha_user_def norole_user_def
        admin_user_def fetch_begin_def metadata_role_def fetch_tableName_def fetch_resume_def
        fetch_try_resume_def provider_value_def fetchUserProfile_def asha_signed_in_def)

subsection \<open>Not found against other query failures\<close>

text \<open>
  C5. For a user with a known role, a query answered with the error code \<open>PGRST116\<close>
  (no row) sets the error "No profile found. Please contact admin." and clears the
  profile, with nothing thrown inside \<open>fetchUserProfile\<close>. Every other query failure
  (another error code, or a rejected call) is thrown inside the \<open>try\<close> block and caught:
  the thrown error's message is stored in \<open>error\<close> and the profile is cleared. In both
  cases the promise of \<open>fetchUserProfile\<close> resolves.
\<close>

theorem fetchUserProfile_not_found_is_distinguished:
  assumes "metadata_role authUser = Some role"
    and "spec_role_table role = Some tableName"
  shows "(from_select rem tableName (au_id authUser) = Resolved q \<and> q_error q = Some e
            \<and> code e = ''PGRST116'' \<longrightarrow>
          fetch_try_resume role (from_select rem tableName (au_id authUser)) s
            = Inr (s\<lparr>error := Some ''No profile found. Please contact admin.'', profile := None\<rparr>)
          \<and> fetchUserProfile rem authUser s
            = \<lparr>returned = Inr (),
               state_after = s\<lparr>error := Some ''No profile found. Please contact admin.'',
                               profile := None\<rparr>,
               calls = [Select tableName (au_id authUser)]\<rparr>)
       \<and> ((from_select rem tableName (au_id authUser) = Resolved q \<and> q_error q = Some e
             \<and> code e \<noteq> ''PGRST116'')
            \<or> from_select rem tableName (au_id authUser) = Rejected e \<longrightarrow>
          fetch_try_resume role (from_select rem tableName (au_id authUser)) s = Inl e
          \<and> fetchUserProfile rem authUser s
            = \<lparr>returned = Inr (),
               state_after = s\<lparr>error := Some (message e), profile := None\<rparr>,
               calls = [Select tableName (au_id authUser)]\<rparr>)"
proof -
  from assms(2) have t: "fetch_tableName role = Some tableName"
    by (simp add: fetch_tableName_is_spec)
  note run = fetchUserProfile_known_role [OF assms(1) t, of rem s]
  show ?thesis
    by (auto simp add: run fetch_resume_def fetch_try_resume_def)
qed

text \<open>C5 at the parent \<open>U5\<close>, whose row is missing, and at a service that is offline.\<close>

theorem fetchUserProfile_not_found_is_distinguished_witness:
  "metadata_role meena_user = Some ''parent''
   \<and> spec_role_table ''parent'' = Some ''parents''
   \<and> from_select school_remote ''parents'' ''U5'' = Resolved \<lparr>q_data = None, q_error = Some no_rows\<rparr>
   \<and> code no_rows = ''PGRST116''
   \<and> state_after (fetchUserProfile school_remote meena_user initial_state)
       = initial_state\<lparr>error := Some ''No profile found. Please contact admin.'', profile := None\<rparr>
   \<and> \<not> isAuthenticated (provider_value (state_after (fetchUserProfile school_remote meena_user initial_state)))
   \<and> from_select offline_remote ''parents'' ''U5'' = Rejected network_down
   \<and> state_after (fetchUserProfile offline_remote meena_user initial_state)
       = initial_state\<lparr>error := Some ''Failed to fetch'', profile := None\<rparr>"
proof -
  have a: "metadata_role meena_user = Some ''parent''"
    by (simp add: metadata_role_def meena_user_def)
  have b: "spec_role_table ''parent'' = Some ''parents''"
    by (simp add: spec_role_table_def)
  have i: "au_id meena_user = ''U5''"
    by (simp add: meena_user_def)
  have c: "from_select school_remote ''parents'' ''U5''
             = Resolved \<lparr>q_data = None, q_error = Some no_rows\<rparr>"
    by (simp add: school_remote_def)
  have d: "code no_rows = ''PGRST116''"
    by (simp add: no_rows_def)
  have e: "from_select offline_remote ''parents'' ''U5'' = Rejected network_down"
    by (simp add: offline_remote_def)
  have f: "state_after (fetchUserProfile school_remote meena_user initial_state)
       = initial_state\<lparr>error := Some ''No profile found. Please contact admin.'', profile := None\<rparr>"
    using fetchUserProfile_not_found_is_distinguished
            [OF a b, of school_remote "\<lparr>q_data = None, q_error = Some no_rows\<rparr>" no_rows initial_state]
          c d
    by (simp add: i)
  have g: "state_after (fetchUserProfile offline_remote meena_user initial_state)
       = initial_state\<lparr>error := Some ''Failed to fetch'', profile := None\<rparr>"
    using fetchUserProfile_not_found_is_distinguished
            [OF a b, of offline_remote "\<lparr>q_data = None, q_error = None\<rparr>" network_down initial_state]
          e
    by (simp add: i network_down_def)
  have h: "\<not> isAuthenticated (provider_value
             (state_after (fetchUserProfile school_remote meena_user initial_state)))"
    by (simp add: f provider_value_def)
  from a b c d e f g h show ?thesis by simp
qed

subsection \<open>Sign-up with a failing insert\<close>

text \<open>
  C6. When the identity is created (the sign-up call resolves without error and with
  the new user) and the insert into the table of the role then fails, \<open>signUp\<close> rejects
  with the insert's error and the profile is as before. Exactly two calls were issued,
  in this order: the identity creation, then one insert into the table the mapping
  fixes for the role, of a row whose id is the id just issued. The same holds of
  \<open>signup\<close> in the later revision of the context provider, which writes no state.
\<close>

theorem signUp_insert_failure_rejects:
  assumes "spec_role_table (sd_role userData) = Some tableName"
  shows "(auth_signUp rem email password (sd_full_name userData) (sd_role userData)
            = Resolved \<lparr>ar_user = Some u, ar_error = None\<rparr>
          \<and> (from_insert rem tableName (signUp_insertData now u userData) = Resolved (Some insertError)
             \<or> from_insert rem tableName (signUp_insertData now u userData) = Rejected insertError)
          \<longrightarrow>
            returned (signUp rem now email password userData s) = Inl insertError
            \<and> profile (state_after (signUp rem now email password userData s)) = profile s
            \<and> user (state_after (signUp rem now email password userData s)) = user s
            \<and> calls (signUp rem now email password userData s) =
                [AuthSignUp email password (sd_full_name userData) (sd_role userData),
                 Insert tableName (signUp_insertData now u userData)]
            \<and> ins_id (signUp_insertData now u userData) = au_id u)
       \<and> (auth_signUp rem (sd_email userData) (sd_password userData) (sd_full_name userData)
            (sd_role userData) = Resolved \<lparr>ar_user = Some u, ar_error = None\<rparr>
          \<and> (from_insert rem tableName (ctx_signup_userData now u userData) = Resolved (Some insertError)
             \<or> from_insert rem tableName (ctx_signup_userData now u userData) = Rejected insertError)
          \<longrightarrow>
            returned (ctx_signup rem now userData cs) = Inl insertError
            \<and> state_after (ctx_signup rem now userData cs) = cs
            \<and> calls (ctx_signup rem now userData cs) =
                [AuthSignUp (sd_email userData) (sd_password userData) (sd_full_name userData)
                   (sd_role userData),
                 Insert tableName (ctx_signup_userData now u userData)]
            \<and> ins_id (ctx_signup_userData now u userData) = au_id u)"
proof (intro conjI impI)
  assume h: "auth_signUp rem email password (sd_full_name userData) (sd_role userData)
            = Resolved \<lparr>ar_user = Some u, ar_error = None\<rparr>
          \<and> (from_insert rem tableName (signUp_insertData now u userData) = Resolved (Some insertError)
             \<or> from_insert rem tableName (signUp_insertData now u userData) = Rejected insertError)"
  from assms have t: "signUp_tableName (sd_role userData) = tableName"
    by (rule signUp_tableName_is_spec)
  from h have
    "from_insert rem (signUp_tableName (sd_role userData)) (signUp_insertData now u userData)
       = Resolved (Some insertError)
     \<or> from_insert rem (signUp_tableName (sd_role userData)) (signUp_insertData now u userData)
       = Rejected insertError"
    by (simp only: t)
  from signUp_insert_failure [OF conjunct1 [OF h] this, of s]
  have one: "signUp rem now email password userData s =
           \<lparr>returned = Inl insertError,
            state_after = s\<lparr>error := Some (message insertError), loading := False\<rparr>,
            calls = [AuthSignUp email password (sd_full_name userData) (sd_role userData),
                     Insert tableName (signUp_insertData now u userData)]\<rparr>"
    by (simp only: t)
  show "returned (signUp rem now email password userData s) = Inl insertError"
    and "profile (state_after (signUp rem now email password userData s)) = profile s"
    and "user (state_after (signUp rem now email password userData s)) = user s"
    and "calls (signUp rem now email password userData s) =
                [AuthSignUp email password (sd_full_name userData) (sd_role userData),
                 Insert tableName (signUp_insertData now u userData)]"
    by (simp_all add: one)
  show "ins_id (signUp_insertData now u userData) = au_id u"
    by (simp add: signUp_insertData_def)
next
  assume h: "auth_signUp rem (sd_email userData) (sd_password userData) (sd_full_name userData)
            (sd_role userData) = Resolved \<lparr>ar_user = Some u, ar_error = None\<rparr>
          \<and> (from_insert rem tableName (ctx_signup_userData now u userData) = Resolved (Some insertError)
             \<or> from_insert rem tableName (ctx_signup_userData now u userData) = Rejected insertError)"
  from assms have "ctx_signup_table (sd_role userData) = Some tableName"
    by (simp add: ctx_signup_table_is_spec)
  note two = ctx_signup_insert_failure [OF conjunct1 [OF h] this conjunct2 [OF h], of cs]
  show "returned (ctx_signup rem now userData cs) = Inl insertError"
    and "state_after (ctx_signup rem now userData cs) = cs"
    and "calls (ctx_signup rem now userData cs) =
                [AuthSignUp (sd_email userData) (sd_password userData) (sd_full_name userData)
                   (sd_role userData),
                 Insert tableName (ctx_signup_userData now u userData)]"
    by (simp_all add: two)
  show "ins_id (ctx_signup_userData now u userData) = au_id u"
    by (simp add: ctx_signup_userData_def)
qed

text \<open>C6 at the sign-up of a faculty member, whose insert hits a duplicate key.\<close>

theorem signUp_insert_failure_rejects_witness:
  "spec_role_table (sd_role ravi_data) = Some ''faculty''
   \<and> auth_signUp school_remote ''ravi@school.test'' ''s3cret!pw'' ''Ravi'' ''faculty''
       = Resolved \<lparr>ar_user = Some ravi_user, ar_error = None\<rparr>
   \<and> from_insert school_remote ''faculty''
        (signUp_insertData ''2026-01-01T00:00:00.000Z'' ravi_user ravi_data)
       = Resolved (Some duplicate_key)
   \<and> from_insert school_remote ''faculty''
        (ctx_signup_userData ''2026-01-01T00:00:00.000Z'' ravi_user ravi_data)
       = Resolved (Some duplicate_key)
   \<and> returned (signUp school_remote ''2026-01-01T00:00:00.000Z'' ''ravi@school.test'' ''s3cret!pw''
        ravi_data initial_state) = Inl duplicate_key
   \<and> profile (state_after (signUp school_remote ''2026-01-01T00:00:00.000Z'' ''ravi@school.test''
        ''s3cret!pw'' ravi_data initial_state)) = None
   \<and> calls (signUp school_remote ''2026-01-01T00:00:00.000Z'' ''ravi@school.test'' ''s3cret!pw''
        ravi_data initial_state)
       = [AuthSignUp ''ravi@school.test'' ''s3cret!pw'' ''Ravi'' ''faculty'',
          Insert ''faculty'' (signUp_insertData ''2026-01-01T00:00:00.000Z'' ravi_user ravi_data)]
   \<and> returned (ctx_signup school_remote ''2026-01-01T00:00:00.000Z'' ravi_data
        \<lparr>ctx_user = None, ctx_loading = False\<rparr>) = Inl duplicate_key"
proof -
  have a: "spec_role_table (sd_role ravi_data) = Some ''faculty''"
    by (simp add: spec_role_table_def ravi_data_def)
  have n: "sd_full_name ravi_data = ''Ravi''" "sd_role ravi_data = ''faculty''"
    by (simp_all add: ravi_data_def)
  have b: "auth_signUp school_remote ''ravi@school.test'' ''s3cret!pw'' ''Ravi'' ''faculty''
             = Resolved \<lparr>ar_user = Some ravi_user, ar_error = None\<rparr>"
    by (simp add: school_remote_def)
  have d: "auth_signUp school_remote (sd_email ravi_data) (sd_password ravi_data) ''Ravi'' ''faculty''
            = Resolved \<lparr>ar_user = Some ravi_user, ar_error = None\<rparr>"
    by (simp add: school_remote_def)
  have f: "from_insert school_remote ''faculty''
             (signUp_insertData ''2026-01-01T00:00:00.000Z'' ravi_user ravi_data)
            = Resolved (Some duplicate_key)"
    by (simp add: school_remote_def)
  have g: "from_insert school_remote ''faculty''
             (ctx_signup_userData ''2026-01-01T00:00:00.000Z'' ravi_user ravi_data)
            = Resolved (Some duplicate_key)"
    by (simp add: school_remote_def)
  have p: "profile initial_state = None"
    by (simp add: initial_state_def)
  from signUp_insert_failure_rejects
         [OF a, of school_remote "''ravi@school.test''" "''s3cret!pw''" ravi_user
            "''2026-01-01T00:00:00.000Z''" duplicate_key initial_state
            "\<lparr>ctx_user = None, ctx_loading = False\<rparr>"]
       a b d f g n p
  show ?thesis by simp
qed

subsection \<open>Which failures reach the caller\<close>

text \<open>
  C7, as stated, fails for sign-out: the remote sign-out of \<open>school_remote\<close> fails,
  and \<open>signOut\<close> resolves; the error is not thrown to the caller.
\<close>

theorem signOut_failure_is_not_rethrown:
  "auth_signOut school_remote = Resolved (Some network_down)
   \<and> returned (signOut school_remote asha_signed_in) = Inr ()
   \<and> returned (signOut school_remote asha_signed_in) \<noteq> Inl network_down
   \<and> error (state_after (signOut school_remote asha_signed_in)) = Some ''Failed to fetch''"
  by (simp add: signOut_def signOut_thrown_def school_remote_def network_down_def)

text \<open>
  C7, amended. \<open>signIn\<close> and \<open>signUp\<close> re-throw every failure to their caller (a
  rejected call or an error in the response of the identity provider and, for
  \<open>signUp\<close>, of the insert), after storing its message in \<open>error\<close>. \<open>signOut\<close>
  never throws: a failure of the remote sign-out is stored in \<open>error\<close> and the
  promise resolves. \<open>fetchUserProfile\<close> never throws either, and every failure inside
  it is stored in \<open>error\<close>: a missing role, an invalid role, a query that finds no
  row, a query answered with another error, and a rejected query.
\<close>

theorem signIn_signUp_rethrow_signOut_and_fetch_swallow:
  "(auth_signInWithPassword rem email password = Rejected e1
      \<or> auth_signInWithPassword rem email password = Resolved \<lparr>ar_user = v1, ar_error = Some e1\<rparr>
    \<longrightarrow> returned (signIn rem email password s) = Inl e1
        \<and> error (state_after (signIn rem email password s)) = Some (message e1))
   \<and> (auth_signUp rem email password (sd_full_name userData) (sd_role userData) = Rejected e2
      \<or> auth_signUp rem email password (sd_full_name userData) (sd_role userData)
           = Resolved \<lparr>ar_user = v2, ar_error = Some e2\<rparr>
    \<longrightarrow> returned (signUp rem now email password userData s) = Inl e2
        \<and> error (state_after (signUp rem now email password userData s)) = Some (message e2))
   \<and> (auth_signUp rem email password (sd_full_name userData) (sd_role userData)
           = Resolved \<lparr>ar_user = Some u, ar_error = None\<rparr>
      \<and> (from_insert rem (signUp_tableName (sd_role userData)) (signUp_insertData now u userData)
            = Resolved (Some e3)
         \<or> from_insert rem (signUp_tableName (sd_role userData)) (signUp_insertData now u userData)
            = Rejected e3)
    \<longrightarrow> returned (signUp rem now email password userData s) = Inl e3
        \<and> error (state_after (signUp rem now email password userData s)) = Some (message e3))
   \<and> returned (signOut rem s) = Inr ()
   \<and> (auth_signOut rem = Resolved (Some e4) \<or> auth_signOut rem = Rejected e4
    \<longrightarrow> error (state_after (signOut rem s)) = Some (message e4))
   \<and> returned (fetchUserProfile rem authUser s) = Inr ()
   \<and> (metadata_role authUser = None \<or> metadata_role authUser = Some []
    \<longrightarrow> error (state_after (fetchUserProfile rem authUser s))
          = Some ''No role found in user profile'')
   \<and> (metadata_role authUser = Some role \<and> role \<noteq> [] \<and> spec_role_table role = None
    \<longrightarrow> error (state_after (fetchUserProfile rem authUser s)) = Some ''Invalid user role'')
   \<and> (metadata_role authUser = Some role \<and> spec_role_table role = Some tableName
      \<and> from_select rem tableName (au_id authUser) = Resolved q \<and> q_error q = Some e5
      \<and> code e5 = ''PGRST116''
    \<longrightarrow> error (state_after (fetchUserProfile rem authUser s))
          = Some ''No profile found. Please contact admin.'')
   \<and> (metadata_role authUser = Some role \<and> spec_role_table role = Some tableName
      \<and> ((from_select rem tableName (au_id authUser) = Resolved q \<and> q_error q = Some e5
           \<and> code e5 \<noteq> ''PGRST116'')
         \<or> from_select rem tableName (au_id authUser) = Rejected e5)
    \<longrightarrow> error (state_after (fetchUserProfile rem authUser s)) = Some (message e5))"
proof (intro conjI impI)
  assume "auth_signInWithPassword rem email password = Rejected e1
      \<or> auth_signInWithPassword rem email password = Resolved \<lparr>ar_user = v1, ar_error = Some e1\<rparr>"
  from signIn_failure [OF this, of s]
  show "returned (signIn rem email password s) = Inl e1"
    and "error (state_after (signIn rem email password s)) = Some (message e1)"
    by simp_all
next
  assume "auth_signUp rem email password (sd_full_name userData) (sd_role userData) = Rejected e2
      \<or> auth_signUp rem email password (sd_full_name userData) (sd_role userData)
           = Resolved \<lparr>ar_user = v2, ar_error = Some e2\<rparr>"
  from signUp_auth_failure [OF this, of now s]
  show "returned (signUp rem now email password userData s) = Inl e2"
    and "error (state_after (signUp rem now email password userData s)) = Some (message e2)"
    by simp_all
next
  assume h: "auth_signUp rem email password (sd_full_name userData) (sd_role userData)
           = Resolved \<lparr>ar_user = Some u, ar_error = None\<rparr>
      \<and> (from_insert rem (signUp_tableName (sd_role userData)) (signUp_insertData now u userData)
            = Resolved (Some e3)
         \<or> from_insert rem (signUp_tableName (sd_role userData)) (signUp_insertData now u userData)
            = Rejected e3)"
  from signUp_insert_failure [OF conjunct1 [OF h] conjunct2 [OF h], of s]
  show "returned (signUp rem now email password userData s) = Inl e3"
    and "error (state_after (signUp rem now email password userData s)) = Some (message e3)"
    by simp_all
next
  show "returned (signOut rem s) = Inr ()"
    by (rule signOut_never_throws)
next
  assume "auth_signOut rem = Resolved (Some e4) \<or> auth_signOut rem = Rejected e4"
  from signOut_failure_state [OF this, of s]
  show "error (state_after (signOut rem s)) = Some (message e4)"
    by simp
next
  show "returned (fetchUserProfile rem authUser s) = Inr ()"
    by (rule fetchUserProfile_never_throws)
next
  assume "metadata_role authUser = None \<or> metadata_role authUser = Some []"
  then show "error (state_after (fetchUserProfile rem authUser s))
          = Some ''No role found in user profile''"
    by (rule fetchUserProfile_no_role_error)
next
  assume "metadata_role authUser = Some role \<and> role \<noteq> [] \<and> spec_role_table role = None"
  then show "error (state_after (fetchUserProfile rem authUser s)) = Some ''Invalid user role''"
    by (simp add: fetchUserProfile_invalid_role_error)
next
  assume h: "metadata_role authUser = Some role \<and> spec_role_table role = Some tableName
      \<and> from_select rem tableName (au_id authUser) = Resolved q \<and> q_error q = Some e5
      \<and> code e5 = ''PGRST116''"
  then have r: "metadata_role authUser = Some role" and t: "spec_role_table role = Some tableName"
    by simp_all
  from fetchUserProfile_query_failure_error [OF r t, of rem q e5 s] h
  show "error (state_after (fetchUserProfile rem authUser s))
          = Some ''No profile found. Please contact admin.''"
    by simp
next
  assume h: "metadata_role authUser = Some role \<and> spec_role_table role = Some tableName
      \<and> ((from_select rem tableName (au_id authUser) = Resolved q \<and> q_error q = Some e5
           \<and> code e5 \<noteq> ''PGRST116'')
         \<or> from_select rem tableName (au_id authUser) = Rejected e5)"
  then have r: "metadata_role authUser = Some role" and t: "spec_role_table role = Some tableName"
    by simp_all
  from fetchUserProfile_query_failure_error [OF r t, of rem q e5 s] h
  show "error (state_after (fetchUserProfile rem authUser s)) = Some (message e5)"
    by blast
qed

text \<open>
  C7, amended, at a service whose sign-in, insert and sign-out fail, and at one whose
  identity provider rejects the sign-up; for \<open>fetchUserProfile\<close>, at a user without a
  role, at one with the role admin, at the parent whose row is missing, and at that
  parent with the service offline.
\<close>

theorem signIn_signUp_rethrow_signOut_and_fetch_swallow_witness:
  "auth_signInWithPassword school_remote ''ravi@school.test'' ''s3cret!pw''
     = Resolved \<lparr>ar_user = None, ar_error = Some network_down\<rparr>
   \<and> returned (signIn school_remote ''ravi@school.test'' ''s3cret!pw'' initial_state)
       = Inl network_down
   \<and> auth_signUp offline_remote ''ravi@school.test'' ''s3cret!pw'' ''Ravi'' ''faculty''
       = Rejected network_down
   \<and> returned (signUp offline_remote ''2026-01-01T00:00:00.000Z'' ''ravi@school.test'' ''s3cret!pw''
        ravi_data initial_state) = Inl network_down
   \<and> auth_signUp school_remote ''ravi@school.test'' ''s3cret!pw'' ''Ravi'' ''faculty''
       = Resolved \<lparr>ar_user = Some ravi_user, ar_error = None\<rparr>
   \<and> from_insert school_remote (signUp_tableName ''faculty'')
        (signUp_insertData ''2026-01-01T00:00:00.000Z'' ravi_user ravi_data)
       = Resolved (Some duplicate_key)
   \<and> returned (signUp school_remote ''2026-01-01T00:00:00.000Z'' ''ravi@school.test'' ''s3cret!pw''
        ravi_data initial_state) = Inl duplicate_key
   \<and> auth_signOut school_remote = Resolved (Some network_down)
   \<and> returned (signOut school_remote initial_state) = Inr ()
   \<and> error (state_after (signOut school_remote initial_state)) = Some (message network_down)
   \<and> metadata_role norole_user = None
   \<and> error (state_after (fetchUserProfile school_remote norole_user initial_state))
       = Some ''No role found in user profile''
   \<and> metadata_role admin_user = Some ''admin'' \<and> spec_role_table ''admin'' = None
   \<and> error (state_after (fetchUserProfile school_remote admin_user initial_state))
       = Some ''Invalid user role''
   \<and> metadata_role meena_user = Some ''parent'' \<and> spec_role_table ''parent'' = Some ''parents''
   \<and> from_select school_remote ''parents'' ''U5'' = Resolved \<lparr>q_data = None, q_error = Some no_rows\<rparr>
   \<and> code no_rows = ''PGRST116''
   \<and> error (state_after (fetchUserProfile school_remote meena_user initial_state))
       = Some ''No profile found. Please contact admin.''
   \<and> from_select offline_remote ''parents'' ''U5'' = Rejected network_down
   \<and> error (state_after (fetchUserProfile offline_remote meena_user initial_state))
       = Some ''Failed to fetch''"
proof -
  let ?miss = "\<lparr>q_data = None, q_error = Some no_rows\<rparr>"
  have n: "sd_full_name ravi_data = ''Ravi''" "sd_role ravi_data = ''faculty''"
    by (simp_all add: ravi_data_def)
  have a: "auth_signInWithPassword school_remote ''ravi@school.test'' ''s3cret!pw''
     = Resolved \<lparr>ar_user = None, ar_error = Some network_down\<rparr>"
    by (simp add: school_remote_def)
  have b: "auth_signUp offline_remote ''ravi@school.test'' ''s3cret!pw'' ''Ravi'' ''faculty''
       = Rejected network_down"
    by (simp add: offline_remote_def)
  have c: "auth_signUp school_remote ''ravi@school.test'' ''s3cret!pw'' ''Ravi'' ''faculty''
       = Resolved \<lparr>ar_user = Some ravi_user, ar_error = None\<rparr>"
    by (simp add: school_remote_def)
  have d: "from_insert school_remote (signUp_tableName ''faculty'')
        (signUp_insertData ''2026-01-01T00:00:00.000Z'' ravi_user ravi_data)
       = Resolved (Some duplicate_key)"
    by (simp add: school_remote_def)
  have e: "auth_signOut school_remote = Resolved (Some network_down)"
    by (simp add: school_remote_def)
  have r0: "metadata_role norole_user = None"
    by (simp add: metadata_role_def norole_user_def)
  have r1: "metadata_role admin_user = Some ''admin''" "spec_role_table ''admin'' = None"
    by (simp_all add: metadata_role_def admin_user_def spec_role_table_def)
  have r2: "metadata_role meena_user = Some ''parent''" "spec_role_table ''parent'' = Some ''parents''"
    by (simp_all add: metadata_role_def meena_user_def spec_role_table_def)
  have i: "au_id meena_user = ''U5''"
    by (simp add: meena_user_def)
  have q1: "from_select school_remote ''parents'' ''U5'' = Resolved ?miss"
    by (simp add: school_remote_def)
  have q2: "code no_rows = ''PGRST116''"
    by (simp add: no_rows_def)
  have q3: "from_select offline_remote ''parents'' ''U5'' = Rejected network_down"
    by (simp add: offline_remote_def)
  note at_school = signIn_signUp_rethrow_signOut_and_fetch_swallow
    [of school_remote "''ravi@school.test''" "''s3cret!pw''" network_down None initial_state
        ravi_data network_down None "''2026-01-01T00:00:00.000Z''" ravi_user duplicate_key
        network_down norole_user]
  note at_offline = signIn_signUp_rethrow_signOut_and_fetch_swallow
    [of offline_remote "''ravi@school.test''" "''s3cret!pw''" network_down None initial_state
        ravi_data network_down None "''2026-01-01T00:00:00.000Z''" ravi_user duplicate_key
        network_down meena_user "''parent''" "''parents''" ?miss network_down]
  note at_admin = signIn_signUp_rethrow_signOut_and_fetch_swallow
    [of school_remote "''ravi@school.test''" "''s3cret!pw''" network_down None initial_state
        ravi_data network_down None "''2026-01-01T00:00:00.000Z''" ravi_user duplicate_key
        network_down admin_user "''admin''"]
  note at_meena = signIn_signUp_rethrow_signOut_and_fetch_swallow
    [of school_remote "''ravi@school.test''" "''s3cret!pw''" network_down None initial_state
        ravi_data network_down None "''2026-01-01T00:00:00.000Z''" ravi_user duplicate_key
        network_down meena_user "''parent''" "''parents''" ?miss no_rows]
  have f: "returned (signIn school_remote ''ravi@school.test'' ''s3cret!pw'' initial_state)
       = Inl network_down"
    using at_school a by simp
  have g: "returned (signUp school_remote ''2026-01-01T00:00:00.000Z'' ''ravi@school.test''
        ''s3cret!pw'' ravi_data initial_state) = Inl duplicate_key"
    using at_school c d by (simp add: n)
  have h: "returned (signOut school_remote initial_state) = Inr ()"
    and k: "error (state_after (signOut school_remote initial_state)) = Some (message network_down)"
    using at_school e by simp_all
  have j: "returned (signUp offline_remote ''2026-01-01T00:00:00.000Z'' ''ravi@school.test''
        ''s3cret!pw'' ravi_data initial_state) = Inl network_down"
    using at_offline b by (simp add: n)
  have w0: "error (state_after (fetchUserProfile school_remote norole_user initial_state))
       = Some ''No role found in user profile''"
    using at_school r0 by simp
  have w1: "error (state_after (fetchUserProfile school_remote admin_user initial_state))
       = Some ''Invalid user role''"
    using at_admin r1 by simp
  have w2: "error (state_after (fetchUserProfile school_remote meena_user initial_state))
       = Some ''No profile found. Please contact admin.''"
    using at_meena r2 q1 q2 by (simp add: i)
  have w3: "error (state_after (fetchUserProfile offline_remote meena_user initial_state))
       = Some ''Failed to fetch''"
    using at_offline r2 q3 by (simp add: i network_down_def)
  from a b c d e f g h k j r0 r1 r2 q1 q2 q3 w0 w1 w2 w3 show ?thesis by simp
qed

end
